theory Spec2Isabelle
  imports Main
begin

section \<open>Data model (gochat.go, strset.go)\<close>

text \<open>
  The message record of \<^verbatim>\<open>gochat.go\<close>: four strings. A freshly allocated
  \<^verbatim>\<open>&gochat.Msg{}\<close> has every field empty.
\<close>

record Msg =
  User :: string
  To :: string
  Msg :: string
  Cmd :: string

definition empty_Msg :: Msg where
  "empty_Msg = \<lparr>User = [], To = [], Msg = [], Cmd = []\<rparr>"

record Addr =
  Address :: string
  Port :: string

text \<open>\<^verbatim>\<open>Addr.String\<close>: \<^verbatim>\<open>fmt.Sprintf("%s:%s", addr.Address, addr.Port)\<close>.\<close>

definition Addr_String :: "Addr \<Rightarrow> string" where
  "Addr_String addr = Address addr @ '':'' @ Port addr"

text \<open>
  \<^verbatim>\<open>strset.StringSet\<close> is a \<^verbatim>\<open>map[string]bool\<close> whose values are always
  \<^verbatim>\<open>true\<close>; only the presence of a key is ever read, so the set of keys is the model.
  The atomic wrapper adds locking only. Every operation returns its result together with
  the set after the call.
\<close>

definition StringSet_Contains :: "string \<Rightarrow> string set \<Rightarrow> bool" where
  "StringSet_Contains s S = (s \<in> S)"

definition StringSet_Add :: "string \<Rightarrow> string set \<Rightarrow> bool \<times> string set" where
  "StringSet_Add s S = (let found = (s \<in> S) in (\<not> found, insert s S))"

definition StringSet_Remove :: "string \<Rightarrow> string set \<Rightarrow> bool \<times> string set" where
  "StringSet_Remove s S =
     (let found = StringSet_Contains s S in
      if found then (found, S - {s}) else (found, S))"

text \<open>
  \<^verbatim>\<open>Array\<close> ranges over a Go map, whose iteration order is unspecified. The order is a
  parameter \<open>keys\<close> of the model: \<open>keys S\<close> is the slice the runtime builds for the key
  set \<open>S\<close>. The same parameter serves \<^verbatim>\<open>GroupMap.GroupNames\<close>. \<open>enumerates keys S\<close>
  says that the slice holds every key of \<open>S\<close> once, which is all that Go promises.
\<close>

definition Array :: "(string set \<Rightarrow> string list) \<Rightarrow> string set \<Rightarrow> string list" where
  "Array keys S = keys S"


record Group =
  Owner :: string
  Users :: "string set"

type_synonym AddrMap = "string \<rightharpoonup> Addr"
type_synonym GroupMap = "string \<rightharpoonup> Group"

subsection \<open>AddrMap\<close>

definition NewAddrMap :: AddrMap where
  "NewAddrMap = Map.empty"

definition AddrMap_Get :: "string \<Rightarrow> AddrMap \<Rightarrow> Addr option" where
  "AddrMap_Get user v = v user"

definition AddrMap_Add :: "string \<Rightarrow> Addr \<Rightarrow> AddrMap \<Rightarrow> bool \<times> AddrMap" where
  "AddrMap_Add user addr v =
     (let ok = (v user \<noteq> None) in
      if \<not> ok then (\<not> ok, v(user \<mapsto> addr)) else (\<not> ok, v))"

definition AddrMap_Remove :: "string \<Rightarrow> AddrMap \<Rightarrow> bool \<times> AddrMap" where
  "AddrMap_Remove user v =
     (let ok = (v user \<noteq> None) in
      if ok then (ok, v(user := None)) else (ok, v))"

subsection \<open>GroupMap\<close>

definition NewGroupMap :: GroupMap where
  "NewGroupMap = Map.empty"

definition GroupMap_Get :: "string \<Rightarrow> GroupMap \<Rightarrow> Group option" where
  "GroupMap_Get groupId v = v groupId"

text \<open>
  \<^verbatim>\<open>AddUser\<close>, \<^verbatim>\<open>RemoveUser\<close>: the flag \<open>ok\<close> is computed under the read lock, the
  member set is changed under the write lock only when the flag is set. The member set is
  reached through the pointer stored in the map entry, so the entry's owner stays.
\<close>

definition AddUser :: "string \<Rightarrow> string \<Rightarrow> GroupMap \<Rightarrow> bool \<times> GroupMap" where
  "AddUser grp user v =
     (case v grp of
        None \<Rightarrow> (False, v)
      | Some g \<Rightarrow>
          (let ok = \<not> StringSet_Contains user (Users g) in
           if ok then (ok, v(grp \<mapsto> g\<lparr>Users := snd (StringSet_Add user (Users g))\<rparr>))
           else (ok, v)))"

definition RemoveUser :: "string \<Rightarrow> string \<Rightarrow> GroupMap \<Rightarrow> bool \<times> GroupMap" where
  "RemoveUser grp user v =
     (case v grp of
        None \<Rightarrow> (False, v)
      | Some g \<Rightarrow>
          (let ok = StringSet_Contains user (Users g) in
           if ok then (ok, v(grp \<mapsto> g\<lparr>Users := snd (StringSet_Remove user (Users g))\<rparr>))
           else (ok, v)))"

text \<open>\<^verbatim>\<open>ContainsUser\<close> returns \<open>(contains, ok)\<close>: membership, and whether the group exists.\<close>

definition ContainsUser :: "string \<Rightarrow> string \<Rightarrow> GroupMap \<Rightarrow> bool \<times> bool" where
  "ContainsUser grp user v =
     (case v grp of
        None \<Rightarrow> (False, False)
      | Some g \<Rightarrow> (StringSet_Contains user (Users g), True))"

definition Create :: "string \<Rightarrow> string \<Rightarrow> GroupMap \<Rightarrow> bool \<times> GroupMap" where
  "Create grp owner v =
     (let ok = (v grp \<noteq> None) in
      if \<not> ok then (\<not> ok, v(grp \<mapsto> \<lparr>Owner = owner, Users = {}\<rparr>)) else (\<not> ok, v))"

definition Delete :: "string \<Rightarrow> GroupMap \<Rightarrow> bool \<times> GroupMap" where
  "Delete grp v =
     (let ok = (v grp \<noteq> None) in
      if ok then (ok, v(grp := None)) else (ok, v))"

definition GroupNames :: "(string set \<Rightarrow> string list) \<Rightarrow> GroupMap \<Rightarrow> string list" where
  "GroupNames keys v = keys (dom v)"

section \<open>The directory server (svr.go)\<close>

datatype err =
    EncodeFailed
  | AddressNotFound string
  | CouldNotFindAddress string
  | GroupDoesntExist string
  | DecodeFailed
  | UserAlreadyExists string
  | ListenFailed

text \<open>
  A run of a handler is observed through traces, which both the server and the client
  carry next to the fields of their struct: \<open>pushes\<close>, the records written to outbound
  connections with the address dialled, in order; \<open>replies\<close>, the values encoded on the
  inbound connection; \<open>reported\<close>, the errors a handler prints; \<open>printed\<close>, the other
  lines the client prints. The other printing of the server is not modelled. A handler is
  modelled as running alone: the locks of the registries play no part.
\<close>

record wire =
  pushes :: "(string \<times> Msg) list"
  replies :: "string list"
  reported :: "err list"
  printed :: "string list"

record Server = wire +
  address :: string
  Addrs :: AddrMap
  Groups :: GroupMap

text \<open>
  What happens to the n-th outbound connection of a run is a parameter \<open>net\<close>.
  \<^verbatim>\<open>Msg.Send\<close> defers \<^verbatim>\<open>conn.Close()\<close> before it looks at the error of
  \<^verbatim>\<open>net.Dial\<close>; when the dial fails \<open>conn\<close> is a nil interface and the method call
  on it panics, which ends the process. A failure of the encoder is returned as an error.
  A run that stops early keeps the state it had reached.
\<close>

datatype send_outcome = Delivered | EncodeError | DialError

datatype stop = NilDereference | IndexOutOfRange | BlockedOnChannel

type_synonym ('a, 's) io = "stop \<times> 's + 'a \<times> 's"

definition and_then :: "('a, 's) io \<Rightarrow> ('a \<times> 's \<Rightarrow> ('b, 's) io) \<Rightarrow> ('b, 's) io" where
  "and_then r f = (case r of Inl p \<Rightarrow> Inl p | Inr x \<Rightarrow> f x)"

definition state_of :: "('a, 's) io \<Rightarrow> 's" where
  "state_of r = (case r of Inl (p, w) \<Rightarrow> w | Inr (x, w) \<Rightarrow> w)"

definition completes :: "('a, 's) io \<Rightarrow> bool" where
  "completes r = (case r of Inl p \<Rightarrow> False | Inr x \<Rightarrow> True)"

definition Send ::
  "(nat \<Rightarrow> send_outcome) \<Rightarrow> Msg \<Rightarrow> string \<Rightarrow> 's wire_scheme
     \<Rightarrow> (err option, 's wire_scheme) io" where
  "Send net msg addr w =
     (case net (length (pushes w)) of
        DialError \<Rightarrow> Inl (NilDereference, w)
      | EncodeError \<Rightarrow> Inr (Some EncodeFailed, w\<lparr>pushes := pushes w @ [(addr, msg)]\<rparr>)
      | Delivered \<Rightarrow> Inr (None, w\<lparr>pushes := pushes w @ [(addr, msg)]\<rparr>))"

definition SendMsg ::
  "(nat \<Rightarrow> send_outcome) \<Rightarrow> Msg \<Rightarrow> string \<Rightarrow> Server \<Rightarrow> (err option, Server) io" where
  "SendMsg net msg user w =
     (case AddrMap_Get user (Addrs w) of
        Some addr \<Rightarrow> Send net msg (Addr_String addr) w
      | None \<Rightarrow> Inr (Some (AddressNotFound user), w))"

text \<open>
  The result channel: the errors sent on it so far, and whether it has been closed. The
  channel is unbuffered and the handler receives from it until it is closed, so every
  error sent is received; a receive on a channel that is never closed would block.
\<close>

record chan =
  buf :: "err list"
  is_closed :: bool

definition make_chan :: chan where
  "make_chan = \<lparr>buf = [], is_closed = False\<rparr>"

definition chan_send :: "err \<Rightarrow> chan \<Rightarrow> chan" where
  "chan_send e c = c\<lparr>buf := buf c @ [e]\<rparr>"

definition chan_close :: "chan \<Rightarrow> chan" where
  "chan_close c = c\<lparr>is_closed := True\<rparr>"

text \<open>The body of the \<^verbatim>\<open>range\<close> loop of \<^verbatim>\<open>SendGroupMsg\<close>, over the slice of members.\<close>

fun SendGroupMsg_range ::
  "(nat \<Rightarrow> send_outcome) \<Rightarrow> Msg \<Rightarrow> string list \<Rightarrow> chan \<Rightarrow> Server \<Rightarrow> (chan, Server) io" where
  "SendGroupMsg_range net msg [] c w = Inr (c, w)"
| "SendGroupMsg_range net msg (user # users) c w =
     (if user \<noteq> User msg then
        (case AddrMap_Get user (Addrs w) of
           Some addr \<Rightarrow>
             and_then
               (Send net (msg\<lparr>Msg := ''['' @ To msg @ ''] '' @ Msg msg\<rparr>) (Addr_String addr) w)
               (\<lambda>(e, w').
                  SendGroupMsg_range net msg users
                    (case e of Some er \<Rightarrow> chan_send er c | None \<Rightarrow> c) w')
         | None \<Rightarrow>
             SendGroupMsg_range net msg users (chan_send (CouldNotFindAddress user) c) w)
      else SendGroupMsg_range net msg users c w)"

definition SendGroupMsg ::
  "(nat \<Rightarrow> send_outcome) \<Rightarrow> (string set \<Rightarrow> string list) \<Rightarrow> Msg \<Rightarrow> chan \<Rightarrow> Server \<Rightarrow> (chan, Server) io" where
  "SendGroupMsg net keys msg c w =
     and_then
       (case GroupMap_Get (To msg) (Groups w) of
          Some g \<Rightarrow> SendGroupMsg_range net msg (Array keys (Users g)) c w
        | None \<Rightarrow> Inr (chan_send (GroupDoesntExist (To msg)) c, w))
       (\<lambda>(c', w'). Inr (chan_close c', w'))"

text \<open>
  \<^verbatim>\<open>go server.SendGroupMsg(msg, errCh)\<close> followed by the loop that receives from
  \<^verbatim>\<open>errCh\<close> until it is closed.
\<close>

definition drain :: "chan \<Rightarrow> Server \<Rightarrow> (unit, Server) io" where
  "drain c w =
     (if is_closed c then Inr ((), w\<lparr>reported := reported w @ buf c\<rparr>)
      else Inl (BlockedOnChannel, w))"

definition broadcast ::
  "(nat \<Rightarrow> send_outcome) \<Rightarrow> (string set \<Rightarrow> string list) \<Rightarrow> Msg \<Rightarrow> Server \<Rightarrow> (unit, Server) io" where
  "broadcast net keys msg w =
     and_then (SendGroupMsg net keys msg make_chan w) (\<lambda>(c, w'). drain c w')"

subsection \<open>HandleRequest, case by case\<close>

text \<open>\<^verbatim>\<open>strings.Split(s, ":")\<close> for a one-character separator, and a slice index.\<close>

fun Split :: "string \<Rightarrow> char \<Rightarrow> string list" where
  "Split [] sep = [] # []"
| "Split (c # cs) sep =
     (if c = sep then [] # Split cs sep
      else (case Split cs sep of [] \<Rightarrow> [c] # [] | x # xs \<Rightarrow> (c # x) # xs))"

definition index :: "'a list \<Rightarrow> nat \<Rightarrow> 's \<Rightarrow> ('a, 's) io" where
  "index xs i w = (if i < length xs then Inr (xs ! i, w) else Inl (IndexOutOfRange, w))"

text \<open>
  A \<^verbatim>\<open>Group\<close> read with \<^verbatim>\<open>group, _ := groups.Get(name)\<close> for an absent name has a
  nil member set, and \<^verbatim>\<open>Array\<close> on it dereferences nil.
\<close>

definition Users_Array ::
  "(string set \<Rightarrow> string list) \<Rightarrow> string \<Rightarrow> Server \<Rightarrow> (string list, Server) io" where
  "Users_Array keys name w =
     (case GroupMap_Get name (Groups w) of
        Some g \<Rightarrow> Inr (Array keys (Users g), w)
      | None \<Rightarrow> Inl (NilDereference, w))"

fun init_cache_range ::
  "(nat \<Rightarrow> send_outcome) \<Rightarrow> Msg \<Rightarrow> Addr \<Rightarrow> string list \<Rightarrow> Server \<Rightarrow> (unit, Server) io" where
  "init_cache_range net msg addr [] w = Inr ((), w)"
| "init_cache_range net msg addr (groupMember # members) w =
     (if groupMember \<noteq> User msg then
        and_then
          (Send net \<lparr>User = groupMember, To = ''global'', Msg = [], Cmd = ''join''\<rparr>
             (Addr_String addr) w)
          (\<lambda>(e, w'). init_cache_range net msg addr members w')
      else init_cache_range net msg addr members w)"

definition handle_init ::
  "(nat \<Rightarrow> send_outcome) \<Rightarrow> (string set \<Rightarrow> string list) \<Rightarrow> string \<Rightarrow> Msg \<Rightarrow> Server \<Rightarrow> (unit, Server) io" where
  "handle_init net keys remote msg w =
     (case AddrMap_Get (User msg) (Addrs w) of
        None \<Rightarrow>
          (let addrStr = Split remote CHR '':'' in
           and_then (index addrStr 0 w) (\<lambda>(a0, w).
           and_then (index addrStr 1 w) (\<lambda>(a1, w).
             let addr = \<lparr>Address = a0, Port = a1\<rparr>;
                 w = w\<lparr>Addrs := snd (AddrMap_Add (User msg) addr (Addrs w))\<rparr>;
                 w = w\<lparr>replies := replies w @ [Port addr]\<rparr>;
                 (ok, groups) = AddUser ''global'' (User msg) (Groups w);
                 w = w\<lparr>Groups :=
                       (if \<not> ok
                        then snd (AddUser ''global'' (User msg) (snd (Create ''global'' [] groups)))
                        else groups)\<rparr>
             in
             and_then
               (case AddrMap_Get (User msg) (Addrs w) of
                  Some addr \<Rightarrow>
                    and_then (Users_Array keys ''global'' w)
                      (\<lambda>(members, w). init_cache_range net msg addr members w)
                | None \<Rightarrow> Inr ((), w))
               (\<lambda>(u, w).
                  broadcast net keys
                    (msg\<lparr>Msg := User msg @ '' is online.'', Cmd := ''join'', To := ''global''\<rparr>)
                    w))))
      | Some a \<Rightarrow> Inr ((), w\<lparr>replies := replies w @ [''alreadyExists'']\<rparr>))"

fun join_cache_range ::
  "(nat \<Rightarrow> send_outcome) \<Rightarrow> Msg \<Rightarrow> string list \<Rightarrow> Server \<Rightarrow> (unit, Server) io" where
  "join_cache_range net msg [] w = Inr ((), w)"
| "join_cache_range net msg (groupMember # members) w =
     (if groupMember \<noteq> User msg then
        and_then
          (SendMsg net \<lparr>User = groupMember, To = To msg, Msg = [], Cmd = ''join''\<rparr> (User msg) w)
          (\<lambda>(e, w'). join_cache_range net msg members w')
      else join_cache_range net msg members w)"

definition handle_join ::
  "(nat \<Rightarrow> send_outcome) \<Rightarrow> (string set \<Rightarrow> string list) \<Rightarrow> Msg \<Rightarrow> Server \<Rightarrow> (unit, Server) io" where
  "handle_join net keys msg w =
     (let response = msg\<lparr>Cmd := []\<rparr>;
          (ok, groups) = AddUser (To msg) (User msg) (Groups w);
          w = w\<lparr>Groups := groups\<rparr>
      in
      if ok then
        (let response = response\<lparr>Msg := ''You have joined the group '' @ To msg @ ''.'',
                                  Cmd := ''join''\<rparr>;
             msg = msg\<lparr>Msg := User msg @ '' has joined the group.''\<rparr>
         in
         and_then (broadcast net keys msg w) (\<lambda>(u, w).
         and_then (SendMsg net response (User response) w) (\<lambda>(e, w).
         and_then (Users_Array keys (To msg) w) (\<lambda>(members, w).
           join_cache_range net msg members w))))
      else
        and_then
          (SendMsg net (response\<lparr>Msg := ''Group '' @ To msg @ '' doesn't exist.''\<rparr>)
             (User response) w)
          (\<lambda>(e, w). Inr ((), w)))"

definition handle_dm :: "(nat \<Rightarrow> send_outcome) \<Rightarrow> Msg \<Rightarrow> Server \<Rightarrow> (unit, Server) io" where
  "handle_dm net msg w =
     and_then
       (SendMsg net (empty_Msg\<lparr>Msg := User msg @ '' whispers '' @ Msg msg\<rparr>) (To msg) w)
       (\<lambda>(e, w). Inr ((), w))"

definition handle_group ::
  "(nat \<Rightarrow> send_outcome) \<Rightarrow> (string set \<Rightarrow> string list) \<Rightarrow> Msg \<Rightarrow> Server \<Rightarrow> (unit, Server) io" where
  "handle_group net keys msg w =
     (let response = msg\<lparr>Cmd := []\<rparr>;
          (contains, ok) = ContainsUser (To msg) (User msg) (Groups w)
      in
      and_then
        (if contains then
           and_then (broadcast net keys (msg\<lparr>Msg := User msg @ '': '' @ Msg msg\<rparr>) w)
             (\<lambda>(u, w).
                Inr (response\<lparr>Msg := ''['' @ To msg @ ''] '' @ User msg @ '': '' @ Msg msg\<rparr>, w))
         else if \<not> ok then
           Inr (response\<lparr>Msg := ''Group '' @ To msg @ '' doesn't exist.''\<rparr>, w)
         else
           Inr (response\<lparr>Msg := ''You don't have access to group '' @ To msg @ ''!''\<rparr>, w))
        (\<lambda>(response, w).
           and_then (SendMsg net response (User response) w) (\<lambda>(e, w). Inr ((), w))))"

definition handle_leave ::
  "(nat \<Rightarrow> send_outcome) \<Rightarrow> (string set \<Rightarrow> string list) \<Rightarrow> Msg \<Rightarrow> Server \<Rightarrow> (unit, Server) io" where
  "handle_leave net keys msg w =
     (let response = msg\<lparr>Cmd := []\<rparr>;
          (ok, groups) = RemoveUser (To msg) (User msg) (Groups w);
          w = w\<lparr>Groups := groups\<rparr>
      in
      and_then
        (if ok then
           and_then
             (broadcast net keys (msg\<lparr>Msg := User msg @ '' has left the group.''\<rparr>) w)
             (\<lambda>(u, w).
                Inr (response\<lparr>Msg := ''You have left the group '' @ To msg @ ''.'',
                              Cmd := ''leave''\<rparr>, w))
         else Inr (response\<lparr>Msg := ''Group '' @ To msg @ '' doesn't exist.''\<rparr>, w))
        (\<lambda>(response, w).
           and_then (SendMsg net response (User response) w) (\<lambda>(e, w). Inr ((), w))))"

definition handle_create :: "(nat \<Rightarrow> send_outcome) \<Rightarrow> Msg \<Rightarrow> Server \<Rightarrow> (unit, Server) io" where
  "handle_create net msg w =
     (let response = msg\<lparr>Cmd := []\<rparr>;
          (ok, groups) = Create (To msg) (User msg) (Groups w)
      in
      and_then
        (if ok then
           Inr (response\<lparr>Msg := ''You created the group '' @ To msg @ ''!'', Cmd := ''create''\<rparr>,
                w\<lparr>Groups := snd (AddUser (To msg) (User msg) groups)\<rparr>)
         else
           Inr (response\<lparr>Msg := ''Group '' @ To msg @ '' already exists!''\<rparr>,
                w\<lparr>Groups := groups\<rparr>))
        (\<lambda>(response, w).
           and_then (SendMsg net response (User response) w) (\<lambda>(e, w). Inr ((), w))))"

definition handle_delete ::
  "(nat \<Rightarrow> send_outcome) \<Rightarrow> (string set \<Rightarrow> string list) \<Rightarrow> Msg \<Rightarrow> Server \<Rightarrow> (unit, Server) io" where
  "handle_delete net keys msg w =
     (let response = msg\<lparr>Cmd := []\<rparr> in
      and_then
        (case GroupMap_Get (To msg) (Groups w) of
           Some g \<Rightarrow>
             if Owner g = User msg then
               and_then (broadcast net keys (msg\<lparr>Msg := ''has been deleted.''\<rparr>) w)
                 (\<lambda>(u, w).
                    Inr (response\<lparr>Msg := ''You deleted the group '' @ To msg @ ''!'',
                                  Cmd := ''delete''\<rparr>,
                         w\<lparr>Groups := snd (Delete (To msg) (Groups w))\<rparr>))
             else
               Inr (response\<lparr>Msg := ''You don't have permission to delete the group ''
                                      @ To msg @ ''!''\<rparr>, w)
         | None \<Rightarrow> Inr (response\<lparr>Msg := ''Group '' @ To msg @ '' doesn't exist!''\<rparr>, w))
        (\<lambda>(response, w).
           and_then (SendMsg net response (User response) w) (\<lambda>(e, w). Inr ((), w))))"

text \<open>
  The loop of the \<^verbatim>\<open>disconnect\<close> case over \<^verbatim>\<open>groups.GroupNames()\<close>. The message is
  rewritten in place in each round that finds the user, and the next round starts from
  the rewritten message; its \<^verbatim>\<open>User\<close> field is never changed.
\<close>

fun disconnect_range ::
  "(nat \<Rightarrow> send_outcome) \<Rightarrow> (string set \<Rightarrow> string list) \<Rightarrow> Msg \<Rightarrow> string list \<Rightarrow> Server
     \<Rightarrow> (unit, Server) io" where
  "disconnect_range net keys msg [] w = Inr ((), w)"
| "disconnect_range net keys msg (groupName # names) w =
     (if fst (ContainsUser groupName (User msg) (Groups w)) then
        (let w = w\<lparr>Groups := snd (RemoveUser groupName (User msg) (Groups w))\<rparr>;
             msg = msg\<lparr>Msg := User msg @ '' has left the group.'', To := groupName,
                       Cmd := ''leave''\<rparr>
         in
         and_then (broadcast net keys msg w)
           (\<lambda>(u, w). disconnect_range net keys msg names w))
      else disconnect_range net keys msg names w)"

definition handle_disconnect ::
  "(nat \<Rightarrow> send_outcome) \<Rightarrow> (string set \<Rightarrow> string list) \<Rightarrow> Msg \<Rightarrow> Server \<Rightarrow> (unit, Server) io" where
  "handle_disconnect net keys msg w =
     (let (ok, addrs) = AddrMap_Remove (User msg) (Addrs w);
          w = w\<lparr>Addrs := addrs\<rparr>
      in
      if ok then disconnect_range net keys msg (GroupNames keys (Groups w)) w
      else Inr ((), w))"

text \<open>In the \<^verbatim>\<open>kick\<close> case the user to remove is carried in the body of the message.\<close>

definition handle_kick ::
  "(nat \<Rightarrow> send_outcome) \<Rightarrow> (string set \<Rightarrow> string list) \<Rightarrow> Msg \<Rightarrow> Server \<Rightarrow> (unit, Server) io" where
  "handle_kick net keys msg w =
     (let response = msg\<lparr>Cmd := []\<rparr> in
      and_then
        (case GroupMap_Get (To msg) (Groups w) of
           Some g \<Rightarrow>
             if Owner g = User msg then
               (let (ok, groups) = RemoveUser (To msg) (Msg msg) (Groups w);
                    w = w\<lparr>Groups := groups\<rparr>
                in
                if ok then
                  (let kickedMsg =
                         msg\<lparr>User := Msg msg,
                             Msg := Msg msg @ '' has been kicked from the group.''\<rparr>;
                       kickedUserMsg =
                         \<lparr>User = Msg msg, To = To msg,
                          Msg = ''['' @ To msg @ ''] You've been removed from the group.'',
                          Cmd = ''leave''\<rparr>
                   in
                   and_then (broadcast net keys kickedMsg w) (\<lambda>(u, w).
                   and_then (SendMsg net kickedUserMsg (Msg msg) w) (\<lambda>(e, w).
                     Inr (response\<lparr>Msg := []\<rparr>, w))))
                else
                  Inr (response\<lparr>Msg := ''User '' @ Msg msg @ '' isn't in the group ''
                                         @ To msg @ ''.''\<rparr>, w))
             else
               Inr (response\<lparr>Msg := ''You don't have permission to remove users from group ''
                                      @ To msg @ ''!''\<rparr>, w)
         | None \<Rightarrow> Inr (response\<lparr>Msg := ''Group '' @ To msg @ '' doesn't exist!''\<rparr>, w))
        (\<lambda>(response, w).
           if Msg response \<noteq> [] then
             and_then (SendMsg net response (User response) w) (\<lambda>(e, w). Inr ((), w))
           else Inr ((), w)))"

text \<open>
  \<^verbatim>\<open>Server.HandleRequest\<close>. \<open>remote\<close> is \<^verbatim>\<open>conn.RemoteAddr().String()\<close>;
  \<open>retrieved\<close> is the record \<^verbatim>\<open>msg.Retrieve(conn)\<close> decoded, \<open>None\<close> when it
  returned an error, in which case the handler returns at once.
\<close>

definition Server_HandleRequest ::
  "(nat \<Rightarrow> send_outcome) \<Rightarrow> (string set \<Rightarrow> string list) \<Rightarrow> string \<Rightarrow> Msg option \<Rightarrow> Server
     \<Rightarrow> (unit, Server) io" where
  "Server_HandleRequest net keys remote retrieved w =
     (case retrieved of
        None \<Rightarrow> Inr ((), w)
      | Some msg \<Rightarrow>
          if Cmd msg = ''init'' then handle_init net keys remote msg w
          else if Cmd msg = ''join'' then handle_join net keys msg w
          else if Cmd msg = ''dm'' then handle_dm net msg w
          else if Cmd msg = ''group'' then handle_group net keys msg w
          else if Cmd msg = ''leave'' then handle_leave net keys msg w
          else if Cmd msg = ''create'' then handle_create net msg w
          else if Cmd msg = ''delete'' then handle_delete net keys msg w
          else if Cmd msg = ''disconnect'' then handle_disconnect net keys msg w
          else if Cmd msg = ''kick'' then handle_kick net keys msg w
          else Inr ((), w))"

section \<open>The client (clnt.go)\<close>

text \<open>
  The struct's field \<^verbatim>\<open>Address\<close>, the host the client listens on, is named
  \<open>ClientAddress\<close> here. \<open>MyGroups\<close> is the local cache of groups.
\<close>

record Client = wire +
  Username :: string
  ClientAddress :: string
  MyGroups :: GroupMap

definition NewClient :: "string \<Rightarrow> Client" where
  "NewClient username =
     \<lparr>pushes = [], replies = [], reported = [], printed = [],
      Username = username, ClientAddress = ''localhost'', MyGroups = NewGroupMap\<rparr>"

text \<open>
  \<^verbatim>\<open>Client.Connect\<close> dials its argument \<open>addr\<close>, with the same deferred close before the
  error check as \<^verbatim>\<open>Msg.Send\<close>, and encodes the \<^verbatim>\<open>init\<close> record. \<open>reply\<close> is the
  value decoded from the connection (\<open>None\<close> when decoding fails) and \<open>listen_ok\<close> says
  whether \<^verbatim>\<open>net.Listen\<close> succeeded in the listener goroutine; the listener itself is
  not modelled. The error returned is the first component of the result.
\<close>

definition Connect ::
  "(nat \<Rightarrow> send_outcome) \<Rightarrow> string option \<Rightarrow> bool \<Rightarrow> string \<Rightarrow> Client
     \<Rightarrow> (err option, Client) io" where
  "Connect net reply listen_ok addr client =
     and_then
       (Send net (empty_Msg\<lparr>User := Username client, Cmd := ''init''\<rparr>) addr client)
       (\<lambda>(e, client).
          case e of
            Some er \<Rightarrow> Inr (Some er, client\<lparr>reported := reported client @ [er]\<rparr>)
          | None \<Rightarrow>
              (case reply of
                 None \<Rightarrow>
                   Inr (Some DecodeFailed,
                        client\<lparr>reported := reported client @ [DecodeFailed]\<rparr>)
               | Some port \<Rightarrow>
                   if port = ''alreadyExists'' then
                     Inr (Some (UserAlreadyExists (Username client)), client)
                   else if \<not> listen_ok then Inr (Some ListenFailed, client)
                   else
                     Inr (None,
                          client\<lparr>MyGroups :=
                            snd (AddUser ''global'' (Username client)
                                  (snd (Create ''global'' [] (MyGroups client))))\<rparr>)))"

definition Disconnect ::
  "(nat \<Rightarrow> send_outcome) \<Rightarrow> string \<Rightarrow> Client \<Rightarrow> (unit, Client) io" where
  "Disconnect net server client =
     and_then
       (Send net (empty_Msg\<lparr>User := Username client, Cmd := ''disconnect''\<rparr>) server client)
       (\<lambda>(e, client).
          Inr ((), case e of
                     Some er \<Rightarrow> client\<lparr>reported := reported client @ [er]\<rparr>
                   | None \<Rightarrow> client))"

text \<open>
  \<^verbatim>\<open>strings.Fields\<close> splits around runs of white space; the six ASCII white space
  characters are modelled. \<^verbatim>\<open>strings.Join\<close> puts the separator between the elements.
\<close>

definition isSpace :: "char \<Rightarrow> bool" where
  "isSpace c = (c \<in> set [CHR '' '', CHR 0x09, CHR 0x0A, CHR 0x0B, CHR 0x0C, CHR 0x0D])"

fun Fields_from :: "string \<Rightarrow> string \<Rightarrow> string list" where
  "Fields_from field [] = (if field = [] then [] else [field])"
| "Fields_from field (c # cs) =
     (if isSpace c then (if field = [] then Fields_from [] cs else field # Fields_from [] cs)
      else Fields_from (field @ [c]) cs)"

definition Fields :: "string \<Rightarrow> string list" where
  "Fields s = Fields_from [] s"

fun Join :: "string list \<Rightarrow> string \<Rightarrow> string" where
  "Join [] sep = []"
| "Join [a] sep = a"
| "Join (a # b # elems) sep = a @ sep @ Join (b # elems) sep"

text \<open>
  The first \<^verbatim>\<open>switch\<close> of \<^verbatim>\<open>Client.HandleRequest\<close>, with its fallthroughs: three
  arguments fill body, target and command, two fill target and command, one fills the
  command; any other number returns without a message.
\<close>

fun assign_args :: "string list \<Rightarrow> Msg \<Rightarrow> Msg option" where
  "assign_args [a0, a1, a2] msg = Some (msg\<lparr>Msg := a2, To := a1, Cmd := a0\<rparr>)"
| "assign_args [a0, a1] msg = Some (msg\<lparr>To := a1, Cmd := a0\<rparr>)"
| "assign_args [a0] msg = Some (msg\<lparr>Cmd := a0\<rparr>)"
| "assign_args args msg = None"

definition Client_HandleRequest ::
  "(nat \<Rightarrow> send_outcome) \<Rightarrow> (string set \<Rightarrow> string list) \<Rightarrow> string \<Rightarrow> Client
     \<Rightarrow> (unit, Client) io" where
  "Client_HandleRequest net keys input client =
     (let args = Fields input;
          args = (if length args > 3
                  then [args ! 0, args ! 1, Join (drop 2 args) '' ''] else args)
      in
      case assign_args args (empty_Msg\<lparr>User := Username client\<rparr>) of
        None \<Rightarrow> Inr ((), client)
      | Some msg \<Rightarrow>
          if Cmd msg \<in> set [''join'', ''dm'', ''leave'', ''create'', ''delete'', ''group'', ''kick'']
          then
            and_then (Send net msg ''localhost:8080'' client)
              (\<lambda>(e, client).
                 Inr ((), case e of
                            Some er \<Rightarrow> client\<lparr>reported := reported client @ [er]\<rparr>
                          | None \<Rightarrow> client))
          else if Cmd msg = ''groups'' then
            (let groupNames = GroupNames keys (MyGroups client) in
             Inr ((), client\<lparr>printed := printed client @
                        (if length groupNames > 0
                         then ''Groups:'' # map (\<lambda>groupName. '' * '' @ groupName) groupNames
                         else [''You belong to no groups.''])\<rparr>))
          else if Cmd msg = ''users'' then
            (if To msg = [] then
               Inr ((), client\<lparr>printed := printed client @
                          [''Please enter a group name to get the users of.'']\<rparr>)
             else
               (case GroupMap_Get (To msg) (MyGroups client) of
                  Some g \<Rightarrow>
                    Inr ((), client\<lparr>printed := printed client @
                               (''Users in '' @ To msg @ '':'')
                               # map (\<lambda>user. '' * '' @ user) (Array keys (Users g))\<rparr>)
                | None \<Rightarrow>
                    Inr ((), client\<lparr>printed := printed client @
                               [''You do not belong to the group '' @ To msg @ ''.'']\<rparr>)))
          else
            Inr ((), client\<lparr>printed := printed client @
                       [''Unknown command '' @ [CHR 0x27] @ Cmd msg @ [CHR 0x27]]\<rparr>))"

text \<open>
  \<^verbatim>\<open>Client.HandleResponse\<close>. \<open>response\<close> is the record as \<^verbatim>\<open>Retrieve\<close> left it (its
  error is not looked at). The cache is updated first, then the body is printed when it
  is not empty.
\<close>

definition HandleResponse :: "Msg \<Rightarrow> Client \<Rightarrow> Client" where
  "HandleResponse response client =
     (let groups =
            (if User response = Username client then
               (if Cmd response = ''leave'' \<or> Cmd response = ''delete'' then
                  snd (Delete (To response) (MyGroups client))
                else if Cmd response = ''create'' \<or> Cmd response = ''join'' then
                  snd (AddUser (To response) (User response)
                        (snd (Create (To response) [] (MyGroups client))))
                else MyGroups client)
             else
               (if Cmd response = ''leave'' \<or> Cmd response = ''kick'' then
                  snd (RemoveUser (To response) (User response) (MyGroups client))
                else if Cmd response = ''delete'' then
                  snd (Delete (To response) (MyGroups client))
                else if Cmd response = ''join'' then
                  snd (AddUser (To response) (User response) (MyGroups client))
                else MyGroups client));
          client = client\<lparr>MyGroups := groups\<rparr>
      in
      if Msg response \<noteq> [] then client\<lparr>printed := printed client @ [Msg response]\<rparr>
      else client)"

section \<open>Notions used in the statements\<close>

text \<open>
  \<open>only_traffic w w'\<close>: the state \<open>w'\<close> differs from \<open>w\<close> at most by further pushes and
  further reported errors; both registries and the replies are the same.
\<close>

definition only_traffic :: "Server \<Rightarrow> Server \<Rightarrow> bool" where
  "only_traffic w w' =
     (\<exists>ps rs. w' = w\<lparr>pushes := pushes w @ ps, reported := reported w @ rs\<rparr>)"

text \<open>A group with one user taken out of its member set.\<close>

definition without :: "string \<Rightarrow> Group \<Rightarrow> Group" where
  "without u G = G\<lparr>Users := Users G - {u}\<rparr>"

text \<open>
  A concrete server with two registered users and two groups, and an iteration order for
  the sets over five names, for the examples that follow the theorems.
\<close>

definition example_keys :: "string set \<Rightarrow> string list" where
  "example_keys S =
     filter (\<lambda>s. s \<in> S) [''global'', ''football'', ''alice'', ''bob'', ''carol'']"

definition example_server :: Server where
  "example_server =
     \<lparr>pushes = [], replies = [], reported = [], printed = [],
      address = ''localhost:8080'',
      Addrs = [''alice'' \<mapsto> \<lparr>Address = ''127.0.0.1'', Port = ''50001''\<rparr>,
               ''bob'' \<mapsto> \<lparr>Address = ''127.0.0.1'', Port = ''50002''\<rparr>],
      Groups = [''global'' \<mapsto> \<lparr>Owner = [], Users = {''alice'', ''bob''}\<rparr>,
                ''football'' \<mapsto> \<lparr>Owner = ''alice'', Users = {''alice'', ''bob'', ''carol''}\<rparr>]\<rparr>"

text \<open>
  The conditions under which the server answers a request with an error notice: the group
  does not exist (join, group, leave, delete, kick), the user is already a member (join) or
  not a member (group, leave), the group already exists (create), the user is not the owner
  (delete, kick), the target carried in the body is not in the group (kick).
\<close>

definition refused :: "Msg \<Rightarrow> Server \<Rightarrow> bool" where
  "refused msg w =
     (if Cmd msg = ''join'' then
        (case Groups w (To msg) of None \<Rightarrow> True | Some g \<Rightarrow> User msg \<in> Users g)
      else if Cmd msg = ''group'' \<or> Cmd msg = ''leave'' then
        (case Groups w (To msg) of None \<Rightarrow> True | Some g \<Rightarrow> User msg \<notin> Users g)
      else if Cmd msg = ''create'' then Groups w (To msg) \<noteq> None
      else if Cmd msg = ''delete'' then
        (case Groups w (To msg) of None \<Rightarrow> True | Some g \<Rightarrow> Owner g \<noteq> User msg)
      else if Cmd msg = ''kick'' then
        (case Groups w (To msg) of
           None \<Rightarrow> True
         | Some g \<Rightarrow> Owner g \<noteq> User msg \<or> Msg msg \<notin> Users g)
      else False)"

text \<open>The last step of those branches: \<^verbatim>\<open>err = server.SendMsg(response, response.User)\<close>.\<close>

definition notice_sent ::
  "(nat \<Rightarrow> send_outcome) \<Rightarrow> Msg \<Rightarrow> string \<Rightarrow> Server \<Rightarrow> (unit, Server) io" where
  "notice_sent net response user w =
     and_then (SendMsg net response user w) (\<lambda>(e, w). Inr ((), w))"

text \<open>
  The client of user alice after a successful \<^verbatim>\<open>Connect\<close> to the server at
  10.0.0.5:9000.
\<close>

definition example_client :: Client where
  "example_client =
     \<lparr>pushes = [(''10.0.0.5:9000'', \<lparr>User = ''alice'', To = [], Msg = [], Cmd = ''init''\<rparr>)],
      replies = [], reported = [], printed = [],
      Username = ''alice'', ClientAddress = ''localhost'',
      MyGroups = [''global'' \<mapsto> \<lparr>Owner = [], Users = {''alice''}\<rparr>]\<rparr>"

section \<open>Group registry properties\<close>

text \<open>
  C5. For every group name g and owners a and b: when g is absent, Create(g, a) returns
  true and leaves g with owner a and no members; a following Create(g, b) returns false
  and changes nothing, so the owner is still a and the member set is the same. In general
  Create on a name that is present returns false and leaves the registry as it is.
\<close>

theorem C5_create_twice:
  assumes "v g = None"
  shows "fst (Create g a v) = True
       \<and> snd (Create g a v) g = Some \<lparr>Owner = a, Users = {}\<rparr>
       \<and> fst (Create g b (snd (Create g a v))) = False
       \<and> snd (Create g b (snd (Create g a v))) = snd (Create g a v)
       \<and> Create g' b' v'
           = (case v' g' of
                None \<Rightarrow> (True, v'(g' \<mapsto> \<lparr>Owner = b', Users = {}\<rparr>))
              | Some G' \<Rightarrow> (False, v'))"
  using assms by (simp add: Create_def split: option.split)

theorem C5_create_twice_witness:
  "NewGroupMap ''g'' = None
   \<and> fst (Create ''g'' ''alice'' NewGroupMap) = True
   \<and> snd (Create ''g'' ''alice'' NewGroupMap) ''g'' = Some \<lparr>Owner = ''alice'', Users = {}\<rparr>
   \<and> fst (Create ''g'' ''bob'' (snd (Create ''g'' ''alice'' NewGroupMap))) = False
   \<and> snd (Create ''g'' ''bob'' (snd (Create ''g'' ''alice'' NewGroupMap)))
       = snd (Create ''g'' ''alice'' NewGroupMap)
   \<and> Create ''football'' ''bob'' (Groups example_server) = (False, Groups example_server)"
  using C5_create_twice [where v = NewGroupMap and g = "''g''" and a = "''alice''" and b = "''bob''"
      and v' = "Groups example_server" and g' = "''football''" and b' = "''bob''"]
  by (simp add: NewGroupMap_def example_server_def)

text \<open>
  C6. AddUser is idempotent: for an existing group g and a user u who is not yet a member,
  the first AddUser(g, u) returns true, the second returns false and changes nothing, and
  ContainsUser(g, u) reports membership after each of the two calls. In general AddUser
  returns true exactly when the group exists and the user is not already a member of it.
\<close>

theorem C6_AddUser_idempotent:
  assumes "v g = Some G" and "u \<notin> Users G"
  shows "fst (AddUser g u v)
       \<and> fst (ContainsUser g u (snd (AddUser g u v)))
       \<and> \<not> fst (AddUser g u (snd (AddUser g u v)))
       \<and> snd (AddUser g u (snd (AddUser g u v))) = snd (AddUser g u v)
       \<and> fst (ContainsUser g u (snd (AddUser g u (snd (AddUser g u v)))))
       \<and> fst (AddUser g' u' v') = (case v' g' of None \<Rightarrow> False | Some G' \<Rightarrow> u' \<notin> Users G')"
  using assms
  by (simp add: AddUser_def ContainsUser_def StringSet_Contains_def StringSet_Add_def Let_def
      split: option.split)

theorem C6_AddUser_idempotent_witness:
  "[''g'' \<mapsto> \<lparr>Owner = ''alice'', Users = {''alice''}\<rparr>] ''g''
      = Some \<lparr>Owner = ''alice'', Users = {''alice''}\<rparr>
   \<and> ''bob'' \<notin> Users \<lparr>Owner = ''alice'', Users = {''alice''}\<rparr>
   \<and> fst (AddUser ''g'' ''bob'' [''g'' \<mapsto> \<lparr>Owner = ''alice'', Users = {''alice''}\<rparr>])
   \<and> \<not> fst (AddUser ''g'' ''bob''
         (snd (AddUser ''g'' ''bob'' [''g'' \<mapsto> \<lparr>Owner = ''alice'', Users = {''alice''}\<rparr>])))
   \<and> fst (ContainsUser ''g'' ''bob''
         (snd (AddUser ''g'' ''bob''
           (snd (AddUser ''g'' ''bob'' [''g'' \<mapsto> \<lparr>Owner = ''alice'', Users = {''alice''}\<rparr>])))))
   \<and> \<not> fst (AddUser ''h'' ''bob'' [''g'' \<mapsto> \<lparr>Owner = ''alice'', Users = {''alice''}\<rparr>])"
  using C6_AddUser_idempotent
    [where v = "[''g'' \<mapsto> \<lparr>Owner = ''alice'', Users = {''alice''}\<rparr>]" and g = "''g''"
       and G = "\<lparr>Owner = ''alice'', Users = {''alice''}\<rparr>" and u = "''bob''"
       and v' = "[''g'' \<mapsto> \<lparr>Owner = ''alice'', Users = {''alice''}\<rparr>]" and g' = "''h''"
       and u' = "''bob''"]
  by simp

text \<open>
  C7. For an existing group g and a user u who is not a member of g, RemoveUser(g, u)
  returns false and the whole group registry, the member set of g included, is left as it
  was. In general RemoveUser returns true exactly when the group exists and the user is a
  member, so it also returns false when g does not exist.
\<close>

theorem C7_RemoveUser_non_member:
  assumes "v g = Some G" and "u \<notin> Users G"
  shows "\<not> fst (RemoveUser g u v)
       \<and> snd (RemoveUser g u v) = v
       \<and> fst (RemoveUser g' u' v') = (case v' g' of None \<Rightarrow> False | Some G' \<Rightarrow> u' \<in> Users G')"
  using assms
  by (simp add: RemoveUser_def StringSet_Contains_def Let_def split: option.split)

theorem C7_RemoveUser_non_member_witness:
  "[''g'' \<mapsto> \<lparr>Owner = ''alice'', Users = {''alice''}\<rparr>] ''g''
      = Some \<lparr>Owner = ''alice'', Users = {''alice''}\<rparr>
   \<and> ''bob'' \<notin> Users \<lparr>Owner = ''alice'', Users = {''alice''}\<rparr>
   \<and> \<not> fst (RemoveUser ''g'' ''bob'' [''g'' \<mapsto> \<lparr>Owner = ''alice'', Users = {''alice''}\<rparr>])
   \<and> snd (RemoveUser ''g'' ''bob'' [''g'' \<mapsto> \<lparr>Owner = ''alice'', Users = {''alice''}\<rparr>])
       = [''g'' \<mapsto> \<lparr>Owner = ''alice'', Users = {''alice''}\<rparr>]
   \<and> \<not> fst (RemoveUser ''h'' ''alice'' [''g'' \<mapsto> \<lparr>Owner = ''alice'', Users = {''alice''}\<rparr>])"
  using C7_RemoveUser_non_member
    [where v = "[''g'' \<mapsto> \<lparr>Owner = ''alice'', Users = {''alice''}\<rparr>]" and g = "''g''"
       and G = "\<lparr>Owner = ''alice'', Users = {''alice''}\<rparr>" and u = "''bob''"
       and v' = "[''g'' \<mapsto> \<lparr>Owner = ''alice'', Users = {''alice''}\<rparr>]" and g' = "''h''"
       and u' = "''alice''"]
  by simp

section \<open>Runs of the server: basic facts\<close>

lemma and_then_Inr [simp]: "and_then (Inr x) f = f x"
  by (simp add: and_then_def)

lemma and_then_Inl [simp]: "and_then (Inl p) f = Inl p"
  by (simp add: and_then_def)

lemma state_of_Inr [simp]: "state_of (Inr (x, w)) = w"
  by (simp add: state_of_def)

lemma state_of_Inl [simp]: "state_of (Inl (p, w)) = w"
  by (simp add: state_of_def)

lemma completes_Inr [simp]: "completes (Inr x)"
  by (simp add: completes_def)

lemma completes_Inl [simp]: "\<not> completes (Inl p)"
  by (simp add: completes_def)


lemma only_traffic_refl [simp]: "only_traffic w w"
  unfolding only_traffic_def
  by (rule exI [of _ "[]"], rule exI [of _ "[]"]) simp





lemma Send_only_traffic: "only_traffic w (state_of (Send net m a w))"
proof -
  have "only_traffic w (w\<lparr>pushes := pushes w @ [(a, m)]\<rparr>)"
    unfolding only_traffic_def
    by (rule exI [of _ "[(a, m)]"], rule exI [of _ "[]"]) simp
  then show ?thesis
    by (simp add: Send_def split: send_outcome.split)
qed


lemma SendMsg_only_traffic: "only_traffic w (state_of (SendMsg net m u w))"
  by (simp add: SendMsg_def Send_only_traffic split: option.split)










section \<open>Session bootstrap\<close>





lemma init_groups_global:
  "(if \<not> fst (AddUser g u v)
    then snd (AddUser g u (snd (Create g [] (snd (AddUser g u v)))))
    else snd (AddUser g u v)) g \<noteq> None"
  by (auto simp: AddUser_def Create_def Let_def split: option.splits)






section \<open>Disconnect\<close>

lemma without_idem [simp]: "without u (without u G) = without u G"
  by (simp add: without_def)









text \<open>
  C10. Handling a disconnect message from a user who is not in the address registry
  changes nothing: AddrMap.Remove returns false and leaves the registry as it was, and the
  handler returns the state it started from, so no group is changed and nothing is pushed.
\<close>

theorem C10_disconnect_unregistered:
  assumes "Cmd msg = ''disconnect''" and "Addrs w (User msg) = None"
  shows "AddrMap_Remove (User msg) (Addrs w) = (False, Addrs w)
       \<and> Server_HandleRequest net keys remote (Some msg) w = Inr ((), w)"
  using assms
  by (simp add: Server_HandleRequest_def handle_disconnect_def AddrMap_Remove_def)

theorem C10_disconnect_unregistered_witness:
  "Addrs example_server ''dave'' = None
   \<and> AddrMap_Remove ''dave'' (Addrs example_server) = (False, Addrs example_server)
   \<and> Server_HandleRequest (\<lambda>n. Delivered) example_keys ''127.0.0.1:50009''
        (Some \<lparr>User = ''dave'', To = [], Msg = [], Cmd = ''disconnect''\<rparr>) example_server
      = Inr ((), example_server)"
proof -
  let ?msg = "\<lparr>User = ''dave'', To = [], Msg = [], Cmd = ''disconnect''\<rparr>"
  have h1: "Cmd ?msg = ''disconnect''" by simp
  have h2: "Addrs example_server (User ?msg) = None" by (simp add: example_server_def)
  from C10_disconnect_unregistered [OF h1 h2, of "\<lambda>n. Delivered" example_keys "''127.0.0.1:50009''"] h2
  show ?thesis by simp
qed

section \<open>Broadcast to a group\<close>







section \<open>Error notices\<close>

lemma notice_sent_state:
  "state_of (notice_sent net response user w)
     = w\<lparr>pushes := pushes w @
          (case Addrs w user of
             None \<Rightarrow> []
           | Some a \<Rightarrow>
               if net (length (pushes w)) = DialError then []
               else [(Addr_String a, response)])\<rparr>"
  by (simp add: notice_sent_def SendMsg_def AddrMap_Get_def Send_def and_then_def state_of_def
      split: option.split send_outcome.split)

lemma refused_notice:
  assumes "refused msg w"
  shows "\<exists>body. body \<noteq> []
         \<and> Server_HandleRequest net keys remote (Some msg) w
             = notice_sent net (msg\<lparr>Cmd := [], Msg := body\<rparr>) (User msg) w"
proof -
  consider "Cmd msg = ''join''" | "Cmd msg = ''group''" | "Cmd msg = ''leave''"
    | "Cmd msg = ''create''" | "Cmd msg = ''delete''" | "Cmd msg = ''kick''"
    using assms by (auto simp: refused_def split: if_splits)
  then show ?thesis
  proof cases
    case 1
    with assms show ?thesis
      by (auto simp: refused_def Server_HandleRequest_def handle_join_def notice_sent_def
          AddUser_def StringSet_Contains_def Let_def split: option.splits)
  next
    case 2
    with assms show ?thesis
      by (auto simp: refused_def Server_HandleRequest_def handle_group_def notice_sent_def
          ContainsUser_def StringSet_Contains_def Let_def split: option.splits)
  next
    case 3
    with assms show ?thesis
      by (auto simp: refused_def Server_HandleRequest_def handle_leave_def notice_sent_def
          RemoveUser_def StringSet_Contains_def Let_def split: option.splits)
  next
    case 4
    with assms show ?thesis
      by (auto simp: refused_def Server_HandleRequest_def handle_create_def notice_sent_def
          Create_def Let_def split: option.splits)
  next
    case 5
    with assms show ?thesis
      by (auto simp: refused_def Server_HandleRequest_def handle_delete_def notice_sent_def
          GroupMap_Get_def Let_def split: option.splits)
  next
    case 6
    with assms show ?thesis
      by (auto simp: refused_def Server_HandleRequest_def handle_kick_def notice_sent_def
          GroupMap_Get_def RemoveUser_def StringSet_Contains_def Let_def split: option.splits)
  qed
qed

lemma HandleResponse_empty_Cmd:
  "Cmd m = [] \<Longrightarrow> MyGroups (HandleResponse m client) = MyGroups client"
  by (simp add: HandleResponse_def Let_def)

text \<open>
  C9. When the server refuses a join, group, leave, create, delete or kick request, all it
  does is push at most one record, to the requester's endpoint: the request with an empty
  command field and a non-empty text as body. The client's HandleResponse applies no cache
  rule to a record with an empty command field, so the notice leaves every client's group
  cache as it was.
\<close>

theorem C9_error_notices_leave_cache:
  assumes "refused msg w"
  shows "\<exists>notice. Cmd notice = [] \<and> User notice = User msg \<and> To notice = To msg
           \<and> Msg notice \<noteq> []
           \<and> state_of (Server_HandleRequest net keys remote (Some msg) w)
               = w\<lparr>pushes := pushes w @
                    (case Addrs w (User msg) of
                       None \<Rightarrow> []
                     | Some a \<Rightarrow>
                         if net (length (pushes w)) = DialError then []
                         else [(Addr_String a, notice)])\<rparr>
           \<and> (\<forall>client. MyGroups (HandleResponse notice client) = MyGroups client)"
proof -
  from refused_notice [OF assms, of net keys remote]
  obtain body where t: "body \<noteq> []"
    and r: "Server_HandleRequest net keys remote (Some msg) w
             = notice_sent net (msg\<lparr>Cmd := [], Msg := body\<rparr>) (User msg) w"
    by blast
  let ?notice = "msg\<lparr>Cmd := [], Msg := body\<rparr>"
  have "Cmd ?notice = []" "User ?notice = User msg" "To ?notice = To msg" "Msg ?notice \<noteq> []"
    using t by simp_all
  moreover have "\<forall>client. MyGroups (HandleResponse ?notice client) = MyGroups client"
    by (simp add: HandleResponse_empty_Cmd)
  ultimately show ?thesis
    unfolding r notice_sent_state by blast
qed

theorem C9_error_notices_leave_cache_witness:
  "refused \<lparr>User = ''alice'', To = ''football'', Msg = ''dave'', Cmd = ''kick''\<rparr> example_server
   \<and> state_of (Server_HandleRequest (\<lambda>n. Delivered) example_keys ''127.0.0.1:50010''
        (Some \<lparr>User = ''alice'', To = ''football'', Msg = ''dave'', Cmd = ''kick''\<rparr>)
        example_server)
      = example_server\<lparr>pushes :=
          [(''127.0.0.1:50001'',
            \<lparr>User = ''alice'', To = ''football'',
             Msg = ''User dave isn't in the group football.'', Cmd = []\<rparr>)]\<rparr>
   \<and> MyGroups (HandleResponse
         \<lparr>User = ''alice'', To = ''football'',
          Msg = ''User dave isn't in the group football.'', Cmd = []\<rparr> example_client)
      = MyGroups example_client"
proof -
  let ?msg = "\<lparr>User = ''alice'', To = ''football'', Msg = ''dave'', Cmd = ''kick''\<rparr>"
  let ?N = "\<lparr>User = ''alice'', To = ''football'',
             Msg = ''User dave isn't in the group football.'', Cmd = []\<rparr>"
  let ?R = "Server_HandleRequest (\<lambda>n. Delivered) example_keys ''127.0.0.1:50010''
              (Some ?msg) example_server"
  have h: "refused ?msg example_server"
    by (simp add: refused_def example_server_def)
  have direct: "state_of ?R = example_server\<lparr>pushes := [(''127.0.0.1:50001'', ?N)]\<rparr>"
    by (simp add: Server_HandleRequest_def handle_kick_def GroupMap_Get_def RemoveUser_def
        StringSet_Contains_def Let_def SendMsg_def AddrMap_Get_def Send_def Addr_String_def
        example_server_def)
  from C9_error_notices_leave_cache [OF h, of "\<lambda>n. Delivered" example_keys "''127.0.0.1:50010''"]
  obtain notice where
    s: "state_of ?R = example_server\<lparr>pushes := pushes example_server @
          (case Addrs example_server (User ?msg) of
             None \<Rightarrow> []
           | Some a \<Rightarrow>
               if (\<lambda>n. Delivered) (length (pushes example_server)) = DialError then []
               else [(Addr_String a, notice)])\<rparr>"
    and c: "\<forall>client. MyGroups (HandleResponse notice client) = MyGroups client"
    by blast
  from s direct have "notice = ?N"
    by (simp add: example_server_def)
  with c h direct show ?thesis by simp
qed

section \<open>The client's cache\<close>

lemma Delete_map: "snd (Delete g v) = v(g := None)"
  by (auto simp: Delete_def Let_def fun_eq_iff)

lemma Create_map:
  "snd (Create g owner v)
     = (case v g of None \<Rightarrow> v(g \<mapsto> \<lparr>Owner = owner, Users = {}\<rparr>) | Some G \<Rightarrow> v)"
  by (simp add: Create_def Let_def split: option.split)

lemma AddUser_map:
  "snd (AddUser g u v)
     = (case v g of None \<Rightarrow> v | Some G \<Rightarrow> v(g \<mapsto> G\<lparr>Users := insert u (Users G)\<rparr>))"
  by (auto simp: AddUser_def StringSet_Contains_def StringSet_Add_def Let_def fun_eq_iff
      insert_absorb split: option.split)

lemma RemoveUser_update:
  "snd (RemoveUser g u v)
     = (case v g of None \<Rightarrow> v | Some G \<Rightarrow> v(g \<mapsto> G\<lparr>Users := Users G - {u}\<rparr>))"
  by (auto simp: RemoveUser_def StringSet_Contains_def StringSet_Remove_def Let_def fun_eq_iff
      split: option.split)

text \<open>
  C2. For every inbound record, HandleResponse updates the cache by these rules and no
  others. When the record's user is the client's own name: leave and delete remove the
  group named in the target field; create and join leave that group in the cache with the
  client among its members (a group not yet cached is entered with an empty owner). When
  the record's user is another user: leave and kick take that user out of the member set of
  the cached group, delete removes the group, join puts that user into the member set of
  the cached group. Any other command leaves the cache as it was. The body is printed
  exactly when it is not empty.
\<close>

theorem C2_HandleResponse_cache_rules:
  "MyGroups (HandleResponse r c) =
     (if User r = Username c then
        (if Cmd r = ''leave'' \<or> Cmd r = ''delete'' then (MyGroups c)(To r := None)
         else if Cmd r = ''create'' \<or> Cmd r = ''join'' then
           (MyGroups c)(To r \<mapsto>
             (case MyGroups c (To r) of
                None \<Rightarrow> \<lparr>Owner = [], Users = {Username c}\<rparr>
              | Some G \<Rightarrow> G\<lparr>Users := insert (Username c) (Users G)\<rparr>))
         else MyGroups c)
      else
        (if Cmd r = ''leave'' \<or> Cmd r = ''kick'' then
           (case MyGroups c (To r) of
              None \<Rightarrow> MyGroups c
            | Some G \<Rightarrow> (MyGroups c)(To r \<mapsto> G\<lparr>Users := Users G - {User r}\<rparr>))
         else if Cmd r = ''delete'' then (MyGroups c)(To r := None)
         else if Cmd r = ''join'' then
           (case MyGroups c (To r) of
              None \<Rightarrow> MyGroups c
            | Some G \<Rightarrow> (MyGroups c)(To r \<mapsto> G\<lparr>Users := insert (User r) (Users G)\<rparr>))
         else MyGroups c))
   \<and> printed (HandleResponse r c) = printed c @ (if Msg r = [] then [] else [Msg r])
   \<and> Username (HandleResponse r c) = Username c
   \<and> pushes (HandleResponse r c) = pushes c"
  by (simp add: HandleResponse_def Let_def Delete_map Create_map AddUser_map RemoveUser_update
      split: option.split)

theorem C2_HandleResponse_cache_rules_witness:
  "MyGroups (HandleResponse
      \<lparr>User = ''bob'', To = ''global'', Msg = ''[global] bob is online.'', Cmd = ''join''\<rparr>
      example_client)
     = [''global'' \<mapsto> \<lparr>Owner = [], Users = {''bob'', ''alice''}\<rparr>]
   \<and> printed (HandleResponse
      \<lparr>User = ''bob'', To = ''global'', Msg = ''[global] bob is online.'', Cmd = ''join''\<rparr>
      example_client)
     = [''[global] bob is online.'']"
  using C2_HandleResponse_cache_rules
    [of "\<lparr>User = ''bob'', To = ''global'', Msg = ''[global] bob is online.'', Cmd = ''join''\<rparr>"
        example_client]
  by (simp add: example_client_def)

section \<open>The client's requests\<close>

lemma Fields_join_football: "Fields ''join football'' = [''join'', ''football'']"
  by (simp add: Fields_def isSpace_def)

lemma Client_HandleRequest_server_commands:
  assumes "assign_args
             (let args = Fields input in
              if length args > 3 then [args ! 0, args ! 1, Join (drop 2 args) '' ''] else args)
             (empty_Msg\<lparr>User := Username client\<rparr>) = Some msg"
    and "Cmd msg \<in> {''join'', ''dm'', ''leave'', ''create'', ''delete'', ''group'', ''kick''}"
  shows "pushes (state_of (Client_HandleRequest net keys input client))
       = pushes client @
           (if net (length (pushes client)) = DialError then [] else [(''localhost:8080'', msg)])"
  using assms
  by (auto simp: Client_HandleRequest_def Let_def Send_def and_then_def state_of_def
      split: send_outcome.split)

text \<open>
  C4. The claim is that a command is sent to the server address given at connect time. The
  code dials the fixed address localhost:8080 for each of the seven commands (the lemma
  above). Evaluated for a client that connected to 10.0.0.5:9000: Connect succeeds there,
  the join request goes to localhost:8080, while Disconnect dials the address it is given.
\<close>

theorem C4_HandleRequest_dials_localhost:
  "Connect (\<lambda>n. Delivered) (Some ''50001'') True ''10.0.0.5:9000'' (NewClient ''alice'')
     = Inr (None, example_client)
   \<and> Client_HandleRequest (\<lambda>n. Delivered) example_keys ''join football'' example_client
     = Inr ((), example_client\<lparr>pushes :=
         [(''10.0.0.5:9000'', \<lparr>User = ''alice'', To = [], Msg = [], Cmd = ''init''\<rparr>),
          (''localhost:8080'', \<lparr>User = ''alice'', To = ''football'', Msg = [], Cmd = ''join''\<rparr>)]\<rparr>)
   \<and> Disconnect (\<lambda>n. Delivered) ''10.0.0.5:9000'' example_client
     = Inr ((), example_client\<lparr>pushes :=
         [(''10.0.0.5:9000'', \<lparr>User = ''alice'', To = [], Msg = [], Cmd = ''init''\<rparr>),
          (''10.0.0.5:9000'', \<lparr>User = ''alice'', To = [], Msg = [], Cmd = ''disconnect''\<rparr>)]\<rparr>)"
  by (simp add: Connect_def Disconnect_def Client_HandleRequest_def Fields_join_football
      NewClient_def NewGroupMap_def
      example_client_def Send_def and_then_def empty_Msg_def Create_def AddUser_def
      StringSet_Contains_def StringSet_Add_def Let_def)

end
